theory Spec2Isabelle
  imports Complex_Main "HOL-Library.Char_ord" "HOL-Library.List_Lexorder"
    "HOL-Library.Multiset"
begin

section \<open>Element symbols and the chemical-system key\<close>

text \<open>
  The notebook compiles \<^verbatim>\<open>elem_re = re.compile('[A-Z][a-z]?')\<close>. The two character
  classes are the ASCII ranges; characters are compared by their code, as Python does.
\<close>

definition is_upper :: "char \<Rightarrow> bool" where
  "is_upper c = (CHR ''A'' \<le> c \<and> c \<le> CHR ''Z'')"

definition is_lower :: "char \<Rightarrow> bool" where
  "is_lower c = (CHR ''a'' \<le> c \<and> c \<le> CHR ''z'')"

text \<open>
  \<^verbatim>\<open>elem_re.findall(s)\<close>: the scan goes left to right. At an upper-case letter a match
  starts; the optional lower-case letter is taken when it is there (the quantifier is
  greedy), and the scan resumes behind the match. Any other character is skipped.
\<close>

fun elem_re_findall :: "string \<Rightarrow> string list" where
  "elem_re_findall [] = []"
| "elem_re_findall [c] = (if is_upper c then [[c]] else [])"
| "elem_re_findall (c # d # cs) =
     (if is_upper c
      then (if is_lower d then [c, d] # elem_re_findall cs
            else [c] # elem_re_findall (d # cs))
      else elem_re_findall (d # cs))"

text \<open>
  \<^verbatim>\<open>def get_elems(s): return ''.join(sorted(set(elem_re.findall(s))))\<close>.
  The set drops repeated tokens, \<^verbatim>\<open>sorted\<close> lists its members in ascending
  (lexicographic, by character code) order, \<^verbatim>\<open>''.join\<close> concatenates them.
\<close>

definition get_elems :: "string \<Rightarrow> string" where
  "get_elems s = concat (sort (remdups (elem_re_findall s)))"

text \<open>A string that the pattern matches as a whole: what \<open>elem_re_findall\<close> can return.\<close>

definition elem_token :: "string \<Rightarrow> bool" where
  "elem_token e =
     (case e of
        [c] \<Rightarrow> is_upper c
      | [c, d] \<Rightarrow> is_upper c \<and> is_lower d
      | _ \<Rightarrow> False)"


section \<open>Tables\<close>

text \<open>
  A DataFrame is the list of its rows, in row order. Both kinds of table of the notebook
  carry a \<^verbatim>\<open>system\<close> column. A prediction row holds the columns read from the data
  file and the system key added to it; the instability score is a number (not-a-number
  entries are outside the model).
\<close>

record keyed =
  system :: string

record row = keyed +
  composition :: string
  delta_e :: rat
  stability_predicted :: rat

record candidate = keyed +
  elements :: "string list"


section \<open>The single most stable entry per system\<close>






section \<open>Enumerating the candidate systems\<close>

text \<open>
  \<^verbatim>\<open>itertools.combinations(iterable, r)\<close>: the \<open>r\<close>-element selections of positions of
  the input, each in input order, listed in lexicographic order of the positions.
\<close>

fun combinations :: "'a list \<Rightarrow> nat \<Rightarrow> 'a list list" where
  "combinations xs 0 = [[]]"
| "combinations [] (Suc r) = []"
| "combinations (x # xs) (Suc r) =
     map ((#) x) (combinations xs r) @ combinations xs (Suc r)"

text \<open>
  \<^verbatim>\<open>assemble_list_of_systems(order)\<close> reads the global \<^verbatim>\<open>element_list\<close>, a Python set
  that was filled from \<^verbatim>\<open>elem_re.findall\<close>; the model takes it as the list in which the
  set is iterated, so its members are pairwise different.
\<close>

definition assemble_list_of_systems :: "string list \<Rightarrow> nat \<Rightarrow> candidate list" where
  "assemble_list_of_systems element_list order =
     map (\<lambda>s. \<lparr>system = concat (sort s), elements = s\<rparr>) (combinations element_list order)"


section \<open>Running a filter\<close>

text \<open>
  \<^verbatim>\<open>run_filter(f, systems, compounds, ntop=2)\<close> is handed references to two DataFrame
  objects and works on the global list \<^verbatim>\<open>list_of_interesting_compounds\<close>. The store
  holds these objects: the tables of candidate systems and the tables of predictions, each
  under the reference by which it is passed, and the global list.
\<close>

record store =
  candidate_frames :: "nat \<Rightarrow> candidate list"
  prediction_frames :: "nat \<Rightarrow> row list"
  list_of_interesting_compounds :: "string list"

datatype error = KeyError string

text \<open>What a call prints: the number of matches and the selected compositions.\<close>

record report =
  found :: nat
  top_comps :: "string list"

text \<open>
  The body of \<^verbatim>\<open>run_filter\<close>, statement by statement. The boolean masks, the selected
  sub-tables and the set of keys are new objects that nothing refers to after the call;
  they are local values here. The one statement that writes to an object that was there
  before the call is \<^verbatim>\<open>list_of_interesting_compounds.extend(top_comps)\<close>.

  On a table without rows, \<^verbatim>\<open>apply\<close> returns an empty series that is not boolean;
  indexing the table with it selects columns, none of them, and reading the column
  \<^verbatim>\<open>system\<close> (of the candidate table) or \<^verbatim>\<open>composition\<close> (of the predictions) from the
  result raises \<^verbatim>\<open>KeyError\<close>. Both happen before the list is extended.
\<close>

definition run_filter ::
  "(string list \<Rightarrow> bool) \<Rightarrow> nat \<Rightarrow> nat \<Rightarrow> int \<Rightarrow> store \<Rightarrow> (error + report) \<times> store" where
  "run_filter f systems compounds ntop st =
     (if candidate_frames st systems = [] then (Inl (KeyError ''system''), st)
      else
        let possible_systems =
              set (map system (filter (\<lambda>s. f (elements s)) (candidate_frames st systems)))
        in if prediction_frames st compounds = [] then (Inl (KeyError ''composition''), st)
           else
             let results = filter (\<lambda>x. system x \<in> possible_systems)
                             (prediction_frames st compounds);
                 top = map composition (take 2 results)
             in (Inr \<lparr>found = length results, top_comps = top\<rparr>,
                 st\<lparr>list_of_interesting_compounds :=
                      list_of_interesting_compounds st @ top\<rparr>))"

text \<open>
  The notebook makes its calls of \<^verbatim>\<open>run_filter\<close> one after the other; each call finds
  the store as the call before left it, and a call that raises leaves it as it was.
  \<open>selected st call\<close> is what the call selects: nothing when it raises.
\<close>

type_synonym call = "(string list \<Rightarrow> bool) \<times> nat \<times> nat \<times> int"

definition selected :: "store \<Rightarrow> call \<Rightarrow> string list" where
  "selected st call =
     (case call of (f, systems, compounds, ntop) \<Rightarrow>
        (case fst (run_filter f systems compounds ntop st) of
           Inl e \<Rightarrow> []
         | Inr rep \<Rightarrow> top_comps rep))"

fun run_filters :: "call list \<Rightarrow> store \<Rightarrow> store" where
  "run_filters [] st = st"
| "run_filters ((f, systems, compounds, ntop) # calls) st =
     run_filters calls (snd (run_filter f systems compounds ntop st))"


section \<open>The predicates\<close>

text \<open>Python's \<^verbatim>\<open>any\<close>, \<^verbatim>\<open>all\<close> and \<^verbatim>\<open>sum\<close> on a list of booleans.\<close>

fun py_any :: "bool list \<Rightarrow> bool" where
  "py_any [] = False"
| "py_any (b # bs) = (b \<or> py_any bs)"

fun py_all :: "bool list \<Rightarrow> bool" where
  "py_all [] = True"
| "py_all (b # bs) = (b \<and> py_all bs)"

fun py_sum :: "bool list \<Rightarrow> int" where
  "py_sum [] = 0"
| "py_sum (b # bs) = (if b then 1 else 0) + py_sum bs"

definition threed_tms :: "string list" where
  "threed_tms = [''Sc'', ''Ti'', ''V'', ''Cr'', ''Mn'', ''Fe'', ''Co'', ''Ni'', ''Cu'', ''Zn'']"

definition chalcogens :: "string list" where
  "chalcogens = [''O'', ''S'', ''Se'', ''Te'']"

definition halogens :: "string list" where
  "halogens = [''F'', ''Cl'', ''Br'', ''I'']"

text \<open>
  The lambdas bound to \<^verbatim>\<open>f\<close>, in the order of the notebook. The sets \<^verbatim>\<open>metals\<close> and
  \<^verbatim>\<open>metals_no_highHHI\<close> are computed from the periodic table and the supply-risk data
  of an external library, so they are parameters here.
\<close>

definition f_alkali :: "string list \<Rightarrow> bool" where
  "f_alkali els = py_any (map (\<lambda>e. e \<in> set [''Li'', ''Na'', ''K'']) els)"

definition f_alkali_no_halogen :: "string list \<Rightarrow> bool" where
  "f_alkali_no_halogen els =
     (py_any (map (\<lambda>e. e \<in> set [''Li'', ''Na'', ''K'']) els)
      \<and> \<not> py_any (map (\<lambda>e. e \<in> set halogens) els))"

definition f_chalcohalide :: "string list \<Rightarrow> bool" where
  "f_chalcohalide els =
     (py_any (map (\<lambda>e. e \<in> set chalcogens) els) \<and> py_any (map (\<lambda>e. e \<in> set halogens) els))"

text \<open>
  The oxygen tests are written \<^verbatim>\<open>e is 'O'\<close>; for one-character strings, which the
  interpreter shares, that is equality with \<^verbatim>\<open>'O'\<close>.
\<close>

definition f_oxide :: "string list \<Rightarrow> bool" where
  "f_oxide els = py_any (map (\<lambda>e. e = ''O'') els)"

definition f_metal_oxide :: "string set \<Rightarrow> string list \<Rightarrow> bool" where
  "f_metal_oxide metals els =
     (py_any (map (\<lambda>e. e = ''O'') els)
      \<and> py_sum (map (\<lambda>e. e \<in> metals) els) = int (length els) - 1)"

definition f_3d_metal_oxide :: "string list \<Rightarrow> bool" where
  "f_3d_metal_oxide els =
     (py_any (map (\<lambda>e. e = ''O'') els)
      \<and> py_sum (map (\<lambda>e. e \<in> set threed_tms) els) = int (length els) - 1)"

definition f_intermetallic :: "string set \<Rightarrow> string list \<Rightarrow> bool" where
  "f_intermetallic metals els = py_all (map (\<lambda>e. e \<in> metals) els)"

definition f_intermetallic_no_highHHI :: "string set \<Rightarrow> string list \<Rightarrow> bool" where
  "f_intermetallic_no_highHHI metals_no_highHHI els =
     py_all (map (\<lambda>e. e \<in> metals_no_highHHI) els)"

definition f_intermetallic_3d :: "string set \<Rightarrow> string list \<Rightarrow> bool" where
  "f_intermetallic_3d metals_no_highHHI els =
     (py_all (map (\<lambda>e. e \<in> metals_no_highHHI) els)
      \<and> py_sum (map (\<lambda>e. e \<in> set threed_tms) els) > 1)"


section \<open>Small tables for the examples\<close>

definition example_systems :: "candidate list" where
  "example_systems =
     [\<lparr>system = ''LiO'', elements = [''Li'', ''O'']\<rparr>,
      \<lparr>system = ''FeLi'', elements = [''Li'', ''Fe'']\<rparr>,
      \<lparr>system = ''FeO'', elements = [''O'', ''Fe'']\<rparr>]"

definition example_compounds :: "row list" where
  "example_compounds =
     [\<lparr>system = ''LiO'', composition = ''Li2O'', delta_e = -2, stability_predicted = -1/2\<rparr>,
      \<lparr>system = ''FeLi'', composition = ''LiFe'', delta_e = -1, stability_predicted = -1/4\<rparr>,
      \<lparr>system = ''FeO'', composition = ''Fe2O3'', delta_e = -1, stability_predicted = 0\<rparr>]"

text \<open>
  A store with the two tables above under reference 0, tables without rows under
  reference 1, and under reference 2 the last candidate system and the first two
  predictions; the list is empty.
\<close>

definition example_store :: store where
  "example_store =
     \<lparr>candidate_frames =
        (\<lambda>a. if a = 0 then example_systems else if a = 2 then drop 2 example_systems else []),
      prediction_frames =
        (\<lambda>a. if a = 0 then example_compounds else if a = 2 then take 2 example_compounds else []),
      list_of_interesting_compounds = []\<rparr>"





section \<open>Properties of the system key\<close>

lemma get_elems_as_set:
  "get_elems s = concat (sorted_list_of_set (set (elem_re_findall s)))"
  by (simp add: get_elems_def sorted_list_of_set_sort_remdups)

text \<open>
  Claim C3. Two composition strings whose element-symbol tokens form the same set of
  distinct symbols get the same system key: neither the order of the tokens nor their
  repetition matters. In particular the keys of \<^verbatim>\<open>AlFeFe2\<close> and of \<^verbatim>\<open>FeAlFe\<close> are both
  \<^verbatim>\<open>AlFe\<close>.
\<close>

theorem get_elems_same_symbols:
  assumes "set (elem_re_findall s) = set (elem_re_findall t)"
  shows "get_elems s = get_elems t
         \<and> get_elems ''AlFeFe2'' = ''AlFe'' \<and> get_elems ''FeAlFe'' = ''AlFe''"
proof -
  have "get_elems s = get_elems t"
    using assms by (simp add: get_elems_as_set)
  moreover have "get_elems ''AlFeFe2'' = ''AlFe''"
    by (simp add: get_elems_def is_upper_def is_lower_def)
  moreover have "get_elems ''FeAlFe'' = ''AlFe''"
    by (simp add: get_elems_def is_upper_def is_lower_def)
  ultimately show ?thesis by simp
qed

theorem get_elems_same_symbols_witness:
  "set (elem_re_findall ''K2OsO5'') = set (elem_re_findall ''O5OsK2Os'')
   \<and> get_elems ''K2OsO5'' = get_elems ''O5OsK2Os''
   \<and> get_elems ''K2OsO5'' = ''KOOs''"
proof -
  have h: "set (elem_re_findall ''K2OsO5'') = set (elem_re_findall ''O5OsK2Os'')"
    by (auto simp: is_upper_def is_lower_def)
  have k: "get_elems ''K2OsO5'' = ''KOOs''"
    by (simp add: get_elems_def is_upper_def is_lower_def)
  show ?thesis
    using h k get_elems_same_symbols [OF h] by simp
qed


section \<open>Properties of a filter run\<close>

lemma run_filter_rows:
  assumes "candidate_frames st systems \<noteq> []" and "prediction_frames st compounds \<noteq> []"
  shows "run_filter f systems compounds ntop st =
     (Inr \<lparr>found = length (filter (\<lambda>x. system x \<in> set (map system
                 (filter (\<lambda>s. f (elements s)) (candidate_frames st systems))))
               (prediction_frames st compounds)),
           top_comps = map composition (take 2 (filter (\<lambda>x. system x \<in> set (map system
                 (filter (\<lambda>s. f (elements s)) (candidate_frames st systems))))
               (prediction_frames st compounds)))\<rparr>,
      st\<lparr>list_of_interesting_compounds := list_of_interesting_compounds st @
           map composition (take 2 (filter (\<lambda>x. system x \<in> set (map system
                 (filter (\<lambda>s. f (elements s)) (candidate_frames st systems))))
               (prediction_frames st compounds)))\<rparr>)"
  using assms by (simp add: run_filter_def Let_def)

lemma run_filter_store:
  "snd (run_filter f systems compounds ntop st) =
     st\<lparr>list_of_interesting_compounds := list_of_interesting_compounds st @
          (case fst (run_filter f systems compounds ntop st) of
             Inl e \<Rightarrow> []
           | Inr rep \<Rightarrow> top_comps rep)\<rparr>"
  by (simp add: run_filter_def Let_def)

lemma run_filter_same_tables:
  assumes "candidate_frames st' = candidate_frames st"
    and "prediction_frames st' = prediction_frames st"
  shows "fst (run_filter f systems compounds ntop st') = fst (run_filter f systems compounds ntop st)"
  using assms by (simp add: run_filter_def Let_def)

text \<open>The body never reads \<open>ntop\<close>: the call with any value is the call with 2.\<close>

lemma run_filter_ntop_irrelevant:
  "run_filter f systems compounds ntop st = run_filter f systems compounds 2 st"
  by (simp add: run_filter_def)

text \<open>
  Claim C1. The claim is that \<open>run_filter\<close> selects the first \<open>ntop\<close> matching rows, so
  \<open>min ntop (number of matching rows)\<close> compositions, for every \<open>ntop\<close>. The code takes
  \<^verbatim>\<open>results.head(2)\<close> whatever \<open>ntop\<close> is: with three matching rows and \<open>ntop = 3\<close> it
  selects two compositions, and with \<open>ntop = 1\<close> it selects two as well.
\<close>

theorem run_filter_ntop_not_used:
  "fst (run_filter (\<lambda>els. True) 0 0 3 example_store)
     = Inr \<lparr>found = 3, top_comps = [''Li2O'', ''LiFe'']\<rparr>
   \<and> list_of_interesting_compounds (snd (run_filter (\<lambda>els. True) 0 0 3 example_store))
       = [''Li2O'', ''LiFe'']
   \<and> fst (run_filter (\<lambda>els. True) 0 0 1 example_store)
       = Inr \<lparr>found = 3, top_comps = [''Li2O'', ''LiFe'']\<rparr>"
  by code_simp

text \<open>
  Claim C7, as stated: whenever no candidate system satisfies the predicate, or no
  prediction row has its system key among the keys of the matching systems, the run makes
  an empty selection and does not raise. A candidate table without rows has no system
  that satisfies the predicate, and a prediction table without rows has no row with a
  matching key; on either the run raises \<^verbatim>\<open>KeyError\<close>.
\<close>

theorem run_filter_empty_table_counterexample:
  "filter (\<lambda>s. f_alkali (elements s)) (candidate_frames example_store 1) = []
   \<and> fst (run_filter f_alkali 1 0 2 example_store) = Inl (KeyError ''system'')
   \<and> filter (\<lambda>x. system x \<in> set (map system
         (filter (\<lambda>s. f_alkali (elements s)) (candidate_frames example_store 0))))
       (prediction_frames example_store 1) = []
   \<and> fst (run_filter f_alkali 0 1 2 example_store) = Inl (KeyError ''composition'')"
  by code_simp

text \<open>
  Claim C7, amended. On a candidate table and a prediction table that both have rows:
  when no candidate system satisfies the predicate, or no prediction row has its system
  key among the keys of the matching systems, the run does not raise, reports zero matches
  and an empty selection, and leaves the store, the collector with it, as it was.
\<close>

theorem run_filter_no_match:
  assumes "candidate_frames st systems \<noteq> []" and "prediction_frames st compounds \<noteq> []"
    and "(\<forall>s \<in> set (candidate_frames st systems). \<not> f (elements s))
         \<or> (\<forall>x \<in> set (prediction_frames st compounds).
               system x \<notin> set (map system
                 (filter (\<lambda>s. f (elements s)) (candidate_frames st systems))))"
  shows "run_filter f systems compounds ntop st = (Inr \<lparr>found = 0, top_comps = []\<rparr>, st)"
proof -
  have "\<forall>x \<in> set (prediction_frames st compounds).
          system x \<notin> set (map system (filter (\<lambda>s. f (elements s)) (candidate_frames st systems)))"
    using assms(3) by (auto simp: filter_empty_conv)
  then have "filter (\<lambda>x. system x \<in> set (map system
                 (filter (\<lambda>s. f (elements s)) (candidate_frames st systems))))
               (prediction_frames st compounds) = []"
    by (simp add: filter_empty_conv)
  then show ?thesis
    by (simp add: run_filter_rows [OF assms(1,2)])
qed

theorem run_filter_no_match_witness:
  "run_filter f_chalcohalide 0 0 2 example_store
     = (Inr \<lparr>found = 0, top_comps = []\<rparr>, example_store)
   \<and> run_filter f_oxide 2 2 2 example_store
     = (Inr \<lparr>found = 0, top_comps = []\<rparr>, example_store)"
proof -
  have n: "candidate_frames example_store 0 \<noteq> []" "prediction_frames example_store 0 \<noteq> []"
      "candidate_frames example_store 2 \<noteq> []" "prediction_frames example_store 2 \<noteq> []"
    by code_simp+
  have h1: "\<forall>s \<in> set (candidate_frames example_store 0). \<not> f_chalcohalide (elements s)"
    by code_simp
  have h2: "\<forall>x \<in> set (prediction_frames example_store 2).
         system x \<notin> set (map system
           (filter (\<lambda>s. f_oxide (elements s)) (candidate_frames example_store 2)))"
    by code_simp
  show ?thesis
    using run_filter_no_match [OF n(1,2), of f_chalcohalide 2] h1
      run_filter_no_match [OF n(3,4), of f_oxide 2] h2
    by blast
qed

lemma run_filters_frames:
  "candidate_frames (run_filters calls st) = candidate_frames st
   \<and> prediction_frames (run_filters calls st) = prediction_frames st"
  by (induction calls st rule: run_filters.induct) (simp_all add: run_filter_store)

text \<open>
  Claim C8. After a sequence of filter runs the collector is what it was before, followed
  by the selections of the runs in the order of the runs; nothing is removed, so a
  composition selected twice is there twice. Three runs that select two compositions each,
  started on the empty list, leave six entries: the first two from the first run, the next
  two from the second, the last two from the third.
\<close>

theorem run_filters_concat:
  "list_of_interesting_compounds (run_filters calls st)
     = list_of_interesting_compounds st @ concat (map (selected st) calls)
   \<and> (list_of_interesting_compounds st = [] \<and> length (selected st c1) = 2
        \<and> length (selected st c2) = 2 \<and> length (selected st c3) = 2 \<longrightarrow>
        length (list_of_interesting_compounds (run_filters [c1, c2, c3] st)) = 6
        \<and> take 2 (list_of_interesting_compounds (run_filters [c1, c2, c3] st)) = selected st c1
        \<and> take 2 (drop 2 (list_of_interesting_compounds (run_filters [c1, c2, c3] st)))
            = selected st c2
        \<and> drop 4 (list_of_interesting_compounds (run_filters [c1, c2, c3] st)) = selected st c3)"
proof -
  have sel: "selected st' c = selected st c"
    if "candidate_frames st' = candidate_frames st" "prediction_frames st' = prediction_frames st"
    for st' st c
    using run_filter_same_tables [OF that] by (simp add: selected_def split: prod.splits)
  have gen: "list_of_interesting_compounds (run_filters cs s)
      = list_of_interesting_compounds s @ concat (map (selected s) cs)" for cs s
  proof (induction cs s rule: run_filters.induct)
    case (1 s)
    show ?case by simp
  next
    case (2 f systems compounds ntop calls s)
    let ?s' = "snd (run_filter f systems compounds ntop s)"
    have fr: "candidate_frames ?s' = candidate_frames s" "prediction_frames ?s' = prediction_frames s"
      by (simp_all add: run_filter_store)
    have "selected ?s' = selected s"
      by (rule ext) (rule sel [OF fr])
    moreover have "list_of_interesting_compounds ?s'
        = list_of_interesting_compounds s @ selected s (f, systems, compounds, ntop)"
      by (simp add: run_filter_store selected_def)
    ultimately show ?case
      using "2.IH" by simp
  qed
  show ?thesis
    by (simp add: gen)
qed

theorem run_filters_concat_witness:
  "list_of_interesting_compounds example_store = []
   \<and> length (selected example_store (f_alkali, 0, 0, 2)) = 2
   \<and> length (selected example_store (\<lambda>els. True, 0, 0, 2)) = 2
   \<and> length (selected example_store (f_oxide, 0, 0, 2)) = 2
   \<and> list_of_interesting_compounds
       (run_filters [(f_alkali, 0, 0, 2), (\<lambda>els. True, 0, 0, 2), (f_oxide, 0, 0, 2)] example_store)
       = [''Li2O'', ''LiFe'', ''Li2O'', ''LiFe'', ''Li2O'', ''Fe2O3'']"
proof -
  have s0: "list_of_interesting_compounds example_store = []"
    by code_simp
  have s1: "selected example_store (f_alkali, 0, 0, 2) = [''Li2O'', ''LiFe'']"
    by code_simp
  have s2: "selected example_store (\<lambda>els. True, 0, 0, 2) = [''Li2O'', ''LiFe'']"
    by code_simp
  have s3: "selected example_store (f_oxide, 0, 0, 2) = [''Li2O'', ''Fe2O3'']"
    by code_simp
  show ?thesis
    using run_filters_concat [of "[(f_alkali, 0, 0, 2), (\<lambda>els. True, 0, 0, 2), (f_oxide, 0, 0, 2)]"
        example_store "(f_alkali, 0, 0, 2)" "(\<lambda>els. True, 0, 0, 2)" "(f_oxide, 0, 0, 2)"]
    by (simp add: s0 s1 s2 s3)
qed

text \<open>
  Claim C10, as stated: a run leaves both tables as they were and makes the collector
  strictly longer. A run in which nothing matches leaves the collector as it was, so the
  collector does not get longer in every run.
\<close>

theorem run_filter_collector_unchanged_counterexample:
  "\<not> (candidate_frames
         (snd (run_filter f_chalcohalide 0 0 2
                 (example_store\<lparr>list_of_interesting_compounds := [''TiCrO3'']\<rparr>))) 0
        = candidate_frames (example_store\<lparr>list_of_interesting_compounds := [''TiCrO3'']\<rparr>) 0
      \<and> prediction_frames
         (snd (run_filter f_chalcohalide 0 0 2
                 (example_store\<lparr>list_of_interesting_compounds := [''TiCrO3'']\<rparr>))) 0
        = prediction_frames (example_store\<lparr>list_of_interesting_compounds := [''TiCrO3'']\<rparr>) 0
      \<and> length (list_of_interesting_compounds
                  (example_store\<lparr>list_of_interesting_compounds := [''TiCrO3'']\<rparr>))
          < length (list_of_interesting_compounds
              (snd (run_filter f_chalcohalide 0 0 2
                      (example_store\<lparr>list_of_interesting_compounds := [''TiCrO3'']\<rparr>)))))"
  by code_simp

text \<open>
  Claim C10, amended. A run leaves every table in the store as it was, the two it is
  handed among them; the only thing it changes is the collector, which is append-only:
  after the run it is the old list followed by the compositions the run selected, and the
  old list itself when the run selected none.
\<close>

theorem run_filter_frame:
  "candidate_frames (snd (run_filter f systems compounds ntop st)) = candidate_frames st
   \<and> prediction_frames (snd (run_filter f systems compounds ntop st)) = prediction_frames st
   \<and> list_of_interesting_compounds (snd (run_filter f systems compounds ntop st))
       = list_of_interesting_compounds st @ selected st (f, systems, compounds, ntop)"
  by (simp add: run_filter_store selected_def)


section \<open>Properties of the predicates\<close>

lemma py_any_map: "py_any (map P xs) = (\<exists>x \<in> set xs. P x)"
  by (induction xs) auto

lemma py_all_map: "py_all (map P xs) = (\<forall>x \<in> set xs. P x)"
  by (induction xs) auto

lemma py_sum_append: "py_sum (bs @ cs) = py_sum bs + py_sum cs"
  by (induction bs) simp_all

text \<open>
  Claim C9. A symbol that is not in the reference list of a membership test counts as
  false there, and the predicate has a truth value all the same: in the predicates that
  ask for some listed element, a tuple with the symbol is judged as the tuple without it;
  in the predicates that ask for every element to be listed, a tuple with the symbol does
  not match; and where listed elements are counted, the symbol adds nothing to the count.
\<close>

theorem unrecognized_symbol_does_not_match:
  "(e \<notin> set [''Li'', ''Na'', ''K''] \<longrightarrow> f_alkali (xs @ e # ys) = f_alkali (xs @ ys))
   \<and> (e \<notin> set [''Li'', ''Na'', ''K''] \<and> e \<notin> set halogens \<longrightarrow>
        f_alkali_no_halogen (xs @ e # ys) = f_alkali_no_halogen (xs @ ys))
   \<and> (e \<notin> set chalcogens \<and> e \<notin> set halogens \<longrightarrow>
        f_chalcohalide (xs @ e # ys) = f_chalcohalide (xs @ ys))
   \<and> (e \<notin> metals \<longrightarrow> \<not> f_intermetallic metals (xs @ e # ys))
   \<and> (e \<notin> metals_no_highHHI \<longrightarrow>
        \<not> f_intermetallic_no_highHHI metals_no_highHHI (xs @ e # ys))
   \<and> (e \<notin> metals_no_highHHI \<longrightarrow>
        \<not> f_intermetallic_3d metals_no_highHHI (xs @ e # ys))
   \<and> (e \<notin> metals \<longrightarrow>
        py_sum (map (\<lambda>x. x \<in> metals) (xs @ e # ys)) = py_sum (map (\<lambda>x. x \<in> metals) (xs @ ys)))
   \<and> (e \<notin> set threed_tms \<longrightarrow>
        py_sum (map (\<lambda>x. x \<in> set threed_tms) (xs @ e # ys))
          = py_sum (map (\<lambda>x. x \<in> set threed_tms) (xs @ ys)))"
  unfolding f_alkali_def f_alkali_no_halogen_def f_chalcohalide_def f_intermetallic_def
    f_intermetallic_no_highHHI_def f_intermetallic_3d_def py_any_map py_all_map
  by (auto simp: py_sum_append)

theorem unrecognized_symbol_does_not_match_witness:
  "''Xx'' \<notin> set [''Li'', ''Na'', ''K''] \<and> ''Xx'' \<notin> set halogens \<and> ''Xx'' \<notin> set chalcogens
   \<and> ''Xx'' \<notin> {''Fe'', ''Al''}
   \<and> f_alkali [''Li'', ''Xx'', ''O''] = f_alkali [''Li'', ''O'']
   \<and> f_alkali_no_halogen [''Li'', ''Xx'', ''O''] = f_alkali_no_halogen [''Li'', ''O'']
   \<and> f_chalcohalide [''Li'', ''Xx'', ''O''] = f_chalcohalide [''Li'', ''O'']
   \<and> \<not> f_intermetallic {''Fe'', ''Al''} [''Fe'', ''Xx'', ''Al'']
   \<and> \<not> f_intermetallic_no_highHHI {''Fe'', ''Al''} [''Fe'', ''Xx'', ''Al'']
   \<and> \<not> f_intermetallic_3d {''Fe'', ''Al''} [''Fe'', ''Xx'', ''Al'']
   \<and> \<not> f_alkali [''Xx'']"
proof -
  have h: "''Xx'' \<notin> set [''Li'', ''Na'', ''K''] \<and> ''Xx'' \<notin> set halogens
           \<and> ''Xx'' \<notin> set chalcogens \<and> ''Xx'' \<notin> {''Fe'', ''Al''}"
    by (simp add: halogens_def chalcogens_def)
  have e: "\<not> f_alkali []"
    by (simp add: f_alkali_def)
  show ?thesis
    using h e
      unrecognized_symbol_does_not_match [of "''Xx''" "[''Li'']" "[''O'']" "{''Fe'', ''Al''}" "{''Fe'', ''Al''}"]
      unrecognized_symbol_does_not_match [of "''Xx''" "[''Fe'']" "[''Al'']" "{''Fe'', ''Al''}" "{''Fe'', ''Al''}"]
      unrecognized_symbol_does_not_match [of "''Xx''" "[]" "[]" "{''Fe'', ''Al''}" "{''Fe'', ''Al''}"]
    by simp
qed


section \<open>Properties of the enumeration\<close>

lemma length_combinations: "length (combinations xs r) = length xs choose r"
  by (induction xs r rule: combinations.induct) simp_all

lemma combinations_length: "s \<in> set (combinations xs r) \<Longrightarrow> length s = r"
  by (induction xs r arbitrary: s rule: combinations.induct) auto

lemma combinations_subset: "s \<in> set (combinations xs r) \<Longrightarrow> set s \<subseteq> set xs"
  by (induction xs r arbitrary: s rule: combinations.induct) (simp, simp, fastforce)

lemma combinations_filter:
  "distinct xs \<Longrightarrow> s \<in> set (combinations xs r) \<Longrightarrow> s = filter (\<lambda>x. x \<in> set s) xs"
proof (induction xs r arbitrary: s rule: combinations.induct)
  case (1 xs)
  then show ?case by simp
next
  case (2 r)
  then show ?case by simp
next
  case (3 x xs r)
  from "3.prems" have dx: "distinct xs" and nx: "x \<notin> set xs" by simp_all
  from "3.prems" consider (a) t where "s = x # t" "t \<in> set (combinations xs r)"
    | (b) "s \<in> set (combinations xs (Suc r))" by auto
  then show ?case
  proof cases
    case a
    have "t = filter (\<lambda>y. y \<in> set t) xs" using "3.IH"(1) [OF dx a(2)] .
    moreover have "filter (\<lambda>y. y \<in> set (x # t)) xs = filter (\<lambda>y. y \<in> set t) xs"
      using nx by (intro filter_cong) auto
    ultimately show ?thesis using a by simp
  next
    case b
    have "s = filter (\<lambda>y. y \<in> set s) xs" using "3.IH"(2) [OF dx b] .
    moreover have "x \<notin> set s" using combinations_subset [OF b] nx by auto
    ultimately show ?thesis by simp
  qed
qed

lemma distinct_combination: "distinct xs \<Longrightarrow> s \<in> set (combinations xs r) \<Longrightarrow> distinct s"
  using combinations_filter [of xs s r] by (metis distinct_filter)

lemma distinct_combinations: "distinct xs \<Longrightarrow> distinct (combinations xs r)"
proof (induction xs r rule: combinations.induct)
  case (3 x xs r)
  then have "distinct (map ((#) x) (combinations xs r))"
    by (simp add: distinct_map)
  moreover have "distinct (combinations xs (Suc r))" using 3 by simp
  moreover have "set (map ((#) x) (combinations xs r)) \<inter> set (combinations xs (Suc r)) = {}"
    using "3.prems" by (auto dest: combinations_subset)
  ultimately show ?case by simp
qed simp_all

text \<open>Every token that \<open>elem_re_findall\<close> returns is an element token.\<close>

lemma elem_re_findall_tokens: "e \<in> set (elem_re_findall s) \<Longrightarrow> elem_token e"
  by (induction s rule: elem_re_findall.induct) (auto simp: elem_token_def split: if_splits)

lemma elem_token_cases:
  "elem_token e \<Longrightarrow> (\<exists>c. e = [c] \<and> is_upper c) \<or> (\<exists>c d. e = [c, d] \<and> is_upper c \<and> is_lower d)"
  by (auto simp: elem_token_def split: list.splits)

lemma upper_not_lower: "is_upper c \<Longrightarrow> \<not> is_lower c"
  by (auto simp: is_upper_def is_lower_def less_eq_char_def)

lemma concat_tokens_inj:
  "\<forall>e \<in> set xs. elem_token e \<Longrightarrow> \<forall>e \<in> set ys. elem_token e \<Longrightarrow> concat xs = concat ys \<Longrightarrow> xs = ys"
proof (induction xs arbitrary: ys)
  case Nil
  then show ?case by (cases ys) (auto dest: elem_token_cases)
next
  case (Cons x xs)
  show ?case
  proof (cases ys)
    case Nil
    with Cons.prems show ?thesis by (auto dest: elem_token_cases)
  next
    case (Cons y ys')
    have tx: "elem_token x" and ty: "elem_token y" using Cons.prems Cons by simp_all
    have hx: "xs = [] \<or> (\<exists>c cs. concat xs = c # cs \<and> is_upper c)"
    proof (cases xs)
      case (Cons a as)
      then have "elem_token a" using Cons.prems by simp
      then show ?thesis using Cons by (auto dest!: elem_token_cases)
    qed simp
    have hy: "ys' = [] \<or> (\<exists>c cs. concat ys' = c # cs \<and> is_upper c)"
    proof (cases ys')
      case (Cons a as)
      then have "elem_token a" using Cons.prems \<open>ys = y # ys'\<close> by simp
      then show ?thesis using Cons by (auto dest!: elem_token_cases)
    qed simp
    have eq: "x @ concat xs = y @ concat ys'" using Cons.prems(3) Cons by simp
    have "x = y"
      using elem_token_cases [OF tx] elem_token_cases [OF ty] hx hy eq
      by (auto dest: upper_not_lower)
    then have "concat xs = concat ys'" using eq by simp
    then have "xs = ys'" using Cons.IH [of ys'] Cons.prems Cons by simp
    then show ?thesis using \<open>x = y\<close> Cons by simp
  qed
qed

lemma system_key_inj:
  assumes d: "distinct xs" and tok: "\<forall>e \<in> set xs. elem_token e"
  shows "inj_on (\<lambda>s. concat (sort s)) (set (combinations xs r))"
proof (rule inj_onI)
  fix s t
  assume s: "s \<in> set (combinations xs r)" and t: "t \<in> set (combinations xs r)"
    and eq: "concat (sort s) = concat (sort t)"
  have "\<forall>e \<in> set (sort s). elem_token e"
    using combinations_subset [OF s] tok by auto
  moreover have "\<forall>e \<in> set (sort t). elem_token e"
    using combinations_subset [OF t] tok by auto
  ultimately have "sort s = sort t"
    using eq by (rule concat_tokens_inj)
  then have "set (sort s) = set (sort t)" by simp
  then have "set s = set t" by simp
  then show "s = t"
    using combinations_filter [OF d s] combinations_filter [OF d t] by simp
qed

lemma combinations_sets:
  assumes d: "distinct xs"
  shows "set ` set (combinations xs r) = {S. S \<subseteq> set xs \<and> card S = r}"
proof (rule card_subset_eq)
  show "finite {S. S \<subseteq> set xs \<and> card S = r}" by simp
  show "set ` set (combinations xs r) \<subseteq> {S. S \<subseteq> set xs \<and> card S = r}"
    using d by (auto dest: combinations_subset simp: distinct_card distinct_combination combinations_length)
  have "inj_on set (set (combinations xs r))"
  proof (rule inj_onI)
    fix s t assume "s \<in> set (combinations xs r)" "t \<in> set (combinations xs r)" "set s = set t"
    then show "s = t" using combinations_filter [OF d, of s r] combinations_filter [OF d, of t r] by simp
  qed
  then have "card (set ` set (combinations xs r)) = card (set (combinations xs r))"
    by (rule card_image)
  also have "\<dots> = length xs choose r"
    using distinct_combinations [OF d] by (simp add: distinct_card length_combinations)
  also have "\<dots> = card {S. S \<subseteq> set xs \<and> card S = r}"
    using d by (simp add: n_subsets distinct_card)
  finally show "card (set ` set (combinations xs r)) = card {S. S \<subseteq> set xs \<and> card S = r}" .
qed

text \<open>
  Claim C5. For an element list of \<open>n\<close> different element symbols and an arity \<open>k\<close>
  (2, 3, 4 or any other), \<open>assemble_list_of_systems\<close> yields exactly \<open>n choose k\<close> rows.
  Each row holds \<open>k\<close> pairwise different elements of the list, so no element is paired
  with itself; the element sets of the rows are exactly the \<open>k\<close>-element subsets of the
  list; and no two rows have the same system key.
\<close>

theorem assemble_list_of_systems_combinations:
  assumes "distinct element_list" and "\<forall>e \<in> set element_list. elem_token e"
  shows "length (assemble_list_of_systems element_list order) = length element_list choose order
    \<and> (\<forall>c \<in> set (assemble_list_of_systems element_list order).
          length (elements c) = order \<and> distinct (elements c)
          \<and> set (elements c) \<subseteq> set element_list
          \<and> system c = concat (sort (elements c)))
    \<and> (\<lambda>c. set (elements c)) ` set (assemble_list_of_systems element_list order)
          = {S. S \<subseteq> set element_list \<and> card S = order}
    \<and> distinct (map system (assemble_list_of_systems element_list order))"
proof -
  have map_sys: "map system (assemble_list_of_systems element_list order)
      = map (\<lambda>s. concat (sort s)) (combinations element_list order)"
    by (simp add: assemble_list_of_systems_def comp_def)
  have map_el: "map elements (assemble_list_of_systems element_list order)
      = combinations element_list order"
    by (simp add: assemble_list_of_systems_def comp_def)
  have 1: "length (assemble_list_of_systems element_list order) = length element_list choose order"
    by (simp add: assemble_list_of_systems_def length_combinations)
  have 2: "\<forall>c \<in> set (assemble_list_of_systems element_list order).
          length (elements c) = order \<and> distinct (elements c)
          \<and> set (elements c) \<subseteq> set element_list
          \<and> system c = concat (sort (elements c))"
    using assms(1)
    by (auto simp: assemble_list_of_systems_def combinations_length distinct_combination
        dest: combinations_subset)
  have "(\<lambda>c. set (elements c)) ` set (assemble_list_of_systems element_list order)
          = set ` set (map elements (assemble_list_of_systems element_list order))"
    by (simp add: image_image)
  then have 3: "(\<lambda>c. set (elements c)) ` set (assemble_list_of_systems element_list order)
          = {S. S \<subseteq> set element_list \<and> card S = order}"
    using combinations_sets [OF assms(1), of order] by (simp only: map_el)
  have 4: "distinct (map system (assemble_list_of_systems element_list order))"
    unfolding map_sys
    using distinct_combinations [OF assms(1)] system_key_inj [OF assms]
    by (simp add: distinct_map)
  show ?thesis using 1 2 3 4 by blast
qed

theorem assemble_list_of_systems_combinations_witness:
  "distinct [''Li'', ''Na'', ''K'', ''O'', ''Fe'']
   \<and> list_all elem_token [''Li'', ''Na'', ''K'', ''O'', ''Fe'']
   \<and> length (assemble_list_of_systems [''Li'', ''Na'', ''K'', ''O'', ''Fe''] 2) = 10
   \<and> distinct (map system (assemble_list_of_systems [''Li'', ''Na'', ''K'', ''O'', ''Fe''] 2))
   \<and> map system (assemble_list_of_systems [''Li'', ''Na'', ''K'', ''O'', ''Fe''] 2)
       = [''LiNa'', ''KLi'', ''LiO'', ''FeLi'', ''KNa'', ''NaO'', ''FeNa'', ''KO'', ''FeK'', ''FeO'']"
proof -
  have d: "distinct [''Li'', ''Na'', ''K'', ''O'', ''Fe'']" by simp
  have t: "\<forall>e \<in> set [''Li'', ''Na'', ''K'', ''O'', ''Fe'']. elem_token e"
    by (simp add: elem_token_def is_upper_def is_lower_def)
  have n: "length [''Li'', ''Na'', ''K'', ''O'', ''Fe''] choose 2 = 10"
    by code_simp
  have v: "map system (assemble_list_of_systems [''Li'', ''Na'', ''K'', ''O'', ''Fe''] 2)
       = [''LiNa'', ''KLi'', ''LiO'', ''FeLi'', ''KNa'', ''NaO'', ''FeNa'', ''KO'', ''FeK'', ''FeO'']"
    by code_simp
  have t': "list_all elem_token [''Li'', ''Na'', ''K'', ''O'', ''Fe'']"
    using t by (simp only: list_all_iff)
  have c: "length (assemble_list_of_systems [''Li'', ''Na'', ''K'', ''O'', ''Fe''] 2) = 10
      \<and> distinct (map system (assemble_list_of_systems [''Li'', ''Na'', ''K'', ''O'', ''Fe''] 2))"
    using assemble_list_of_systems_combinations [OF d t, of 2] by (simp only: n)
  show ?thesis
    using d t' v c by blast
qed


section \<open>Properties of the deduplication\<close>




























end
